theory Spec2Isabelle
  imports Main "HOL-Library.Sublist"
begin

section \<open>Strings of the runtime\<close>

text \<open>
  A JavaScript string is modelled as a \<^typ>\<open>string\<close>: a list of code units below 256
  (the Latin-1 range).  The string methods the service calls are written out for that
  range: \<open>split(',')\<close>, \<open>trim()\<close>, \<open>toLowerCase()\<close>, \<open>startsWith\<close>,
  \<open>slice\<close> and \<open>replace\<close> with a global literal pattern.
\<close>

definition backslash :: char where
  "backslash = CHR 0x5C"

definition line_feed :: char where
  "line_feed = CHR 0x0A"

definition carriage_return :: char where
  "carriage_return = CHR 0x0D"

text \<open>The line terminators of ECMAScript in this range: the regular expression atom
  \<open>.\<close> (without the \<open>s\<close> flag) matches every code unit but these.\<close>

definition line_terminator :: "char \<Rightarrow> bool" where
  "line_terminator c = (c = line_feed \<or> c = carriage_return)"

text \<open>\<open>String.prototype.trim\<close> removes white space and line terminators: TAB, LF, VT, FF,
  CR, SP and NBSP in this range.\<close>

definition js_space :: "char \<Rightarrow> bool" where
  "js_space c = (c \<in> set [CHR 0x09, CHR 0x0A, CHR 0x0B, CHR 0x0C, CHR 0x0D, CHR 0x20, CHR 0xA0])"

definition trim :: "string \<Rightarrow> string" where
  "trim s = rev (dropWhile js_space (rev (dropWhile js_space s)))"

text \<open>\<open>s.split(sep)\<close> for a one-character separator: the empty string splits into one
  empty piece, and a trailing separator leaves a trailing empty piece.\<close>

fun split :: "char \<Rightarrow> string \<Rightarrow> string list" where
  "split sep [] = [[]]"
| "split sep (c # cs) =
     (if c = sep then [] # split sep cs
      else (case split sep cs of
              [] \<Rightarrow> [[c]]
            | w # ws \<Rightarrow> (c # w) # ws))"

text \<open>\<open>s.replace(/pat/g, rep)\<close> for a literal, non-empty \<open>pat\<close>: the occurrences are
  replaced from the left, without overlap.\<close>

function replaceAll :: "string \<Rightarrow> string \<Rightarrow> string \<Rightarrow> string" where
  "replaceAll pat rep [] = []"
| "replaceAll pat rep (c # cs) =
     (if pat \<noteq> [] \<and> prefix pat (c # cs)
      then rep @ replaceAll pat rep (drop (length pat) (c # cs))
      else c # replaceAll pat rep cs)"
  by pat_completeness auto
termination
  by (relation "measure (\<lambda>(pat, rep, s). length s)") (auto simp: neq_Nil_conv)

text \<open>\<open>toLowerCase\<close> on the Latin-1 range: A to Z, and the capital letters from
  U+00C0 to U+00DE except the multiplication sign U+00D7, move up by 32.\<close>

definition toLowerCase_char :: "char \<Rightarrow> char" where
  "toLowerCase_char c =
     (let n = (of_char c :: nat)
      in if (65 \<le> n \<and> n \<le> 90) \<or> (192 \<le> n \<and> n \<le> 222 \<and> n \<noteq> 215)
         then char_of (n + 32) else c)"

definition toLowerCase :: "string \<Rightarrow> string" where
  "toLowerCase s = map toLowerCase_char s"

section \<open>lib/validation.ts\<close>

subsection \<open>The regular expressions the matcher builds\<close>

text \<open>
  \<open>matchesPattern\<close> builds the source text of a regular expression and compiles it with
  \<open>new RegExp\<close>.  The compiler is modelled on the fragment such source texts are written
  in: the assertions \<open>^\<close> and \<open>$\<close>, a backslash followed by a syntax character (an
  identity escape, which matches that character), \<open>.*\<close>, and every other character that
  is not a syntax character, which matches itself.  On any other text the model returns
  \<open>None\<close>, which \<open>matchesPattern\<close> treats as the exception of \<open>new RegExp\<close>; lemma
  \<open>RegExp_new_regexPattern\<close> below shows that no pattern ever leads there.
\<close>

datatype rx = Bol | Eol | Lit char | AnyStar

definition syntax_character :: "char \<Rightarrow> bool" where
  "syntax_character c = (c \<in> set ''.*+?^${}()|[]'' \<or> c = backslash)"

fun RegExp_new :: "string \<Rightarrow> rx list option" where
  "RegExp_new [] = Some []"
| "RegExp_new [c] =
     (if c = CHR ''^'' then Some [Bol]
      else if c = CHR ''$'' then Some [Eol]
      else if syntax_character c then None
      else Some [Lit c])"
| "RegExp_new (c # d # cs) =
     (if c = CHR ''^'' then map_option (Cons Bol) (RegExp_new (d # cs))
      else if c = CHR ''$'' then map_option (Cons Eol) (RegExp_new (d # cs))
      else if c = backslash then
        (if syntax_character d then map_option (Cons (Lit d)) (RegExp_new cs) else None)
      else if c = CHR ''.'' then
        (if d = CHR ''*'' then map_option (Cons AnyStar) (RegExp_new cs) else None)
      else if syntax_character c then None
      else map_option (Cons (Lit c)) (RegExp_new (d # cs)))"

text \<open>
  Matching by backtracking.  \<open>rx_match r at_start s\<close>: the items \<open>r\<close> match a prefix of
  the remaining input \<open>s\<close>; \<open>at_start\<close> says whether \<open>s\<close> is the whole input.  Without
  the \<open>m\<close> flag \<open>^\<close> holds only at the start of the input and \<open>$\<close> only at its end.
\<close>

fun rx_match :: "rx list \<Rightarrow> bool \<Rightarrow> string \<Rightarrow> bool" where
  "rx_match [] at_start s = True"
| "rx_match (Bol # r) at_start s = (at_start \<and> rx_match r at_start s)"
| "rx_match (Eol # r) at_start s = (s = [] \<and> rx_match r at_start s)"
| "rx_match (Lit c # r) at_start [] = False"
| "rx_match (Lit c # r) at_start (x # s) = (x = c \<and> rx_match r False s)"
| "rx_match (AnyStar # r) at_start [] = rx_match r at_start []"
| "rx_match (AnyStar # r) at_start (x # s) =
     (rx_match r at_start (x # s) \<or> (\<not> line_terminator x \<and> rx_match (AnyStar # r) False s))"

text \<open>\<open>regex.test(s)\<close> for a regular expression without flags: a match may start at
  any position of the input, and the call keeps no state.\<close>

fun rx_search :: "rx list \<Rightarrow> bool \<Rightarrow> string \<Rightarrow> bool" where
  "rx_search r at_start [] = rx_match r at_start []"
| "rx_search r at_start (x # s) = (rx_match r at_start (x # s) \<or> rx_search r False s)"

definition RegExp_test :: "rx list \<Rightarrow> string \<Rightarrow> bool" where
  "RegExp_test regex s = rx_search regex True s"

subsection \<open>matchesPattern and the cache of compiled patterns\<close>

text \<open>
  \<open>regexCache\<close> is a module-level \<open>Map<string, RegExp>\<close>.  It is passed in and handed
  back by every function that reaches \<open>matchesPattern\<close>.
\<close>

type_synonym regexCache = "string \<rightharpoonup> rx list"

text \<open>\<open>pattern.replace(/[.*+?^${}()|[\]\\]/g, '\\$&')\<close>: a backslash is put before every
  character of the class.\<close>

definition escape_specials :: "string \<Rightarrow> string" where
  "escape_specials pattern =
     concat (map (\<lambda>c. if syntax_character c then [backslash, c] else [c]) pattern)"

definition regexPattern :: "string \<Rightarrow> string" where
  "regexPattern pattern =
     ''^'' @ replaceAll [backslash, CHR ''*''] ''.*'' (escape_specials pattern) @ ''$''"

definition matchesPattern :: "regexCache \<Rightarrow> string \<Rightarrow> string \<Rightarrow> bool \<times> regexCache" where
  "matchesPattern cache uri pattern =
     (case cache pattern of
        Some regex \<Rightarrow> (RegExp_test regex uri, cache)
      | None \<Rightarrow>
          (case RegExp_new (regexPattern pattern) of
             None \<Rightarrow> (False, cache)
           | Some regex \<Rightarrow> (RegExp_test regex uri, cache(pattern \<mapsto> regex))))"

subsection \<open>validateRedirectUri\<close>

text \<open>The \<open>for\<close> loop over the patterns, with its early \<open>return true\<close>.\<close>

fun validateRedirectUri_loop :: "regexCache \<Rightarrow> string \<Rightarrow> string list \<Rightarrow> bool \<times> regexCache" where
  "validateRedirectUri_loop cache redirectUri [] = (False, cache)"
| "validateRedirectUri_loop cache redirectUri (pattern # patterns) =
     (case matchesPattern cache redirectUri pattern of
        (True, cache') \<Rightarrow> (True, cache')
      | (False, cache') \<Rightarrow> validateRedirectUri_loop cache' redirectUri patterns)"

definition validateRedirectUri :: "regexCache \<Rightarrow> string \<Rightarrow> string \<Rightarrow> bool \<times> regexCache" where
  "validateRedirectUri cache redirectUri allowedUris =
     (if redirectUri = [] then (False, cache)
      else validateRedirectUri_loop cache redirectUri (map trim (split CHR '','' allowedUris)))"

subsection \<open>isAllowedOrigin\<close>

text \<open>
  \<open>new URL(...)\<close> is the platform's parser, not code of the repository: it is a parameter
  \<open>URL_new\<close> of the functions that reach it, \<open>None\<close> when the constructor throws.  Of the
  parsed URL the code reads \<open>protocol\<close> and \<open>host\<close>.
\<close>

record URL =
  protocol :: string
  host :: string

definition extractOrigin :: "(string \<Rightarrow> URL option) \<Rightarrow> string \<Rightarrow> string option" where
  "extractOrigin URL_new urlOrPattern =
     (let testUrl = replaceAll ''*'' ''WILDCARD'' urlOrPattern
      in case URL_new testUrl of
           None \<Rightarrow> None
         | Some url \<Rightarrow> Some (replaceAll ''WILDCARD'' ''*'' (protocol url @ ''//'' @ host url)))"

fun isAllowedOrigin_loop ::
  "(string \<Rightarrow> URL option) \<Rightarrow> regexCache \<Rightarrow> string \<Rightarrow> string list \<Rightarrow> bool \<times> regexCache" where
  "isAllowedOrigin_loop URL_new cache origin [] = (False, cache)"
| "isAllowedOrigin_loop URL_new cache origin (pattern # patterns) =
     (case extractOrigin URL_new pattern of
        None \<Rightarrow> isAllowedOrigin_loop URL_new cache origin patterns
      | Some patternOrigin \<Rightarrow>
          if patternOrigin = [] then isAllowedOrigin_loop URL_new cache origin patterns
          else (case matchesPattern cache origin patternOrigin of
                  (True, cache') \<Rightarrow> (True, cache')
                | (False, cache') \<Rightarrow> isAllowedOrigin_loop URL_new cache' origin patterns))"

definition isAllowedOrigin ::
  "(string \<Rightarrow> URL option) \<Rightarrow> regexCache \<Rightarrow> string \<Rightarrow> string \<Rightarrow> bool \<times> regexCache" where
  "isAllowedOrigin URL_new cache origin allowedUris =
     (if origin = [] then (False, cache)
      else isAllowedOrigin_loop URL_new cache origin (map trim (split CHR '','' allowedUris)))"

section \<open>lib/types.ts\<close>

text \<open>
  The interfaces are records.  A field the code tests for presence (\<open>!req.code\<close>,
  \<open>!clientId\<close>, \<open>!tokenResp.id_token\<close>) is a \<^typ>\<open>string option\<close>, \<open>None\<close> for
  \<open>undefined\<close>; \<open>truthy\<close> is the test the code applies to it, returning the string when
  it is present and not empty.  \<open>unknown\<close> is the type parameter \<open>'u\<close>.
\<close>

definition truthy :: "string option \<Rightarrow> string option" where
  "truthy v = (case v of None \<Rightarrow> None | Some s \<Rightarrow> if s = [] then None else Some s)"

record Env =
  ENVIRONMENT :: string
  USER_INFO_SERVICE_URL :: string
  ALLOWED_REDIRECT_URIS :: string
  GOOGLE_OAUTH_CLIENT_ID :: "string option"
  GOOGLE_OAUTH_CLIENT_SECRET :: "string option"
  MICROSOFT_OAUTH_CLIENT_ID :: "string option"
  MICROSOFT_OAUTH_CLIENT_SECRET :: "string option"

text \<open>\<open>env[key]\<close> for a key given by its name.\<close>

definition env_get :: "Env \<Rightarrow> string \<Rightarrow> string option" where
  "env_get env key =
     (if key = ''ENVIRONMENT'' then Some (ENVIRONMENT env)
      else if key = ''USER_INFO_SERVICE_URL'' then Some (USER_INFO_SERVICE_URL env)
      else if key = ''ALLOWED_REDIRECT_URIS'' then Some (ALLOWED_REDIRECT_URIS env)
      else if key = ''GOOGLE_OAUTH_CLIENT_ID'' then GOOGLE_OAUTH_CLIENT_ID env
      else if key = ''GOOGLE_OAUTH_CLIENT_SECRET'' then GOOGLE_OAUTH_CLIENT_SECRET env
      else if key = ''MICROSOFT_OAUTH_CLIENT_ID'' then MICROSOFT_OAUTH_CLIENT_ID env
      else if key = ''MICROSOFT_OAUTH_CLIENT_SECRET'' then MICROSOFT_OAUTH_CLIENT_SECRET env
      else None)"

record TokenExchangeRequest =
  code :: "string option"
  redirect_uri :: "string option"
  code_verifier :: "string option"
  provider :: "string option"

record 'u TokenExchangeResponse =
  access_token :: "string option"
  token_type :: string
  expires_in :: int
  scope :: string
  refresh_token :: "string option"
  id_token :: "string option"
  user_info :: "'u option"

section \<open>The runtime: outbound calls and JSON.parse\<close>

text \<open>
  An exception is an \<open>Error\<close> or a \<open>TypeError\<close> with its message.  The global \<open>fetch\<close>
  followed by \<open>response.text()\<close> either rejects or gives a status and a body;
  \<open>response.ok\<close> is a status from 200 to 299.  The entries of \<open>URLSearchParams\<close> are
  kept as a list, not serialised.  \<open>JSON.parse\<close> is a parameter at each of the three
  types the code declares for its result; \<open>Inl\<close> is the exception it throws.
\<close>

datatype exn = Error string | TypeError string

text \<open>
  A parsed JSON value whose fields the code goes on to read is either \<open>null\<close>, on which
  reading a field throws a \<open>TypeError\<close>, or a value read at its declared type.  A
  number, a string, a boolean or an array has none of the fields: it is the record
  with every field absent.
\<close>

datatype 'a parsed = Parsed_null | Parsed_object 'a

text \<open>The exception of reading the property \<open>name\<close> of \<open>null\<close>, with the message of
  the V8 engine.\<close>

definition reading_null :: "string \<Rightarrow> exn" where
  "reading_null name =
     TypeError (''Cannot read properties of null (reading '' @ [CHR 0x27] @ name @ [CHR 0x27] @ '')'')"

record FetchRequest =
  url :: string
  http_method :: string
  request_headers :: "(string \<times> string) list"
  form :: "(string \<times> string) list option"

record FetchResponse =
  fetched_status :: nat
  fetched_text :: string

definition ok :: "FetchResponse \<Rightarrow> bool" where
  "ok response = (200 \<le> fetched_status response \<and> fetched_status response \<le> 299)"

record OAuthErrorResponse =
  error :: "string option"
  error_description :: "string option"

record 'u runtime =
  runtime_URL :: "string \<Rightarrow> URL option"
  fetch :: "FetchRequest \<Rightarrow> exn + FetchResponse"
  JSON_parse_error :: "string \<Rightarrow> exn + OAuthErrorResponse parsed"
  JSON_parse_token :: "string \<Rightarrow> exn + 'u TokenExchangeResponse parsed"
  JSON_parse_unknown :: "string \<Rightarrow> exn + 'u"

text \<open>A template literal renders \<open>undefined\<close> as the word, and a number in decimal.\<close>

definition template_string :: "string option \<Rightarrow> string" where
  "template_string v = (case v of None \<Rightarrow> ''undefined'' | Some s \<Rightarrow> s)"

fun template_number :: "nat \<Rightarrow> string" where
  "template_number n =
     (if n < 10 then [char_of (48 + n)]
      else template_number (n div 10) @ [char_of (48 + n mod 10)])"

section \<open>lib/oauth-common.ts, lib/oauth-google.ts, lib/oauth-microsoft.ts\<close>

record OAuthProviderConfig =
  tokenEndpoint :: string
  clientIdKey :: string
  clientSecretKey :: string
  providerName :: string

text \<open>The request \<open>exchangeCode\<close> sends: the form of \<open>URLSearchParams\<close>, with
  \<open>code_verifier\<close> only when the request has one.\<close>

definition tokenRequest ::
  "TokenExchangeRequest \<Rightarrow> string \<Rightarrow> string \<Rightarrow> OAuthProviderConfig \<Rightarrow> FetchRequest" where
  "tokenRequest req clientId clientSecret config =
     \<lparr>url = tokenEndpoint config,
      http_method = ''POST'',
      request_headers = [(''Content-Type'', ''application/x-www-form-urlencoded'')],
      form = Some
        ([(''client_id'', clientId),
          (''client_secret'', clientSecret),
          (''code'', template_string (code req)),
          (''redirect_uri'', template_string (redirect_uri req)),
          (''grant_type'', ''authorization_code'')]
         @ (case truthy (code_verifier req) of
              None \<Rightarrow> []
            | Some v \<Rightarrow> [(''code_verifier'', v)]))\<rparr>"

text \<open>
  \<open>exchangeCode\<close> returns the outbound calls it made and its result, \<open>Inl\<close> for the
  exception it throws.  On a status outside 2xx the \<open>try\<close> holds \<open>JSON.parse\<close> and the
  reading of \<open>errResp.error\<close>: if the parse throws, or the body is \<open>null\<close> and the
  reading throws, the \<open>catch\<close> appends the raw body to the message with the status.
  On a 2xx status nothing catches: a body that is \<open>null\<close> makes the reading of
  \<open>tokenResp.access_token\<close> throw out of the function.
\<close>

definition exchangeCode ::
  "'u runtime \<Rightarrow> TokenExchangeRequest \<Rightarrow> Env \<Rightarrow> OAuthProviderConfig
     \<Rightarrow> FetchRequest list \<times> (exn + 'u TokenExchangeResponse)" where
  "exchangeCode rt req env config =
     (case truthy (env_get env (clientIdKey config)) of
        None \<Rightarrow> ([], Inl (Error (clientIdKey config @ '' is not configured'')))
      | Some clientId \<Rightarrow>
     (case truthy (env_get env (clientSecretKey config)) of
        None \<Rightarrow> ([], Inl (Error (clientSecretKey config @ '' is not configured'')))
      | Some clientSecret \<Rightarrow>
     (let call = tokenRequest req clientId clientSecret config
      in case fetch rt call of
           Inl e \<Rightarrow> ([call], Inl e)
         | Inr response \<Rightarrow>
             if \<not> ok response then
               (let errorMessage =
                      ''Token exchange failed with status ''
                        @ template_number (fetched_status response)
                in ([call], Inl (Error
                  (case JSON_parse_error rt (fetched_text response) of
                     Inr (Parsed_object errResp) \<Rightarrow>
                       ''Token exchange failed: '' @ template_string (error errResp)
                         @ '' - '' @ template_string (error_description errResp)
                   | Inr Parsed_null \<Rightarrow> errorMessage @ '': '' @ fetched_text response
                   | Inl e \<Rightarrow> errorMessage @ '': '' @ fetched_text response))))
             else
               (case JSON_parse_token rt (fetched_text response) of
                  Inl e \<Rightarrow> ([call], Inl e)
                | Inr Parsed_null \<Rightarrow> ([call], Inl (reading_null ''access_token''))
                | Inr (Parsed_object tokenResp) \<Rightarrow>
                    if truthy (access_token tokenResp) = None then
                      ([call], Inl (Error ''access_token missing in token response''))
                    else if truthy (id_token tokenResp) = None then
                      ([call], Inl (Error ''id_token missing in token response''))
                    else ([call], Inr tokenResp)))))"

definition googleConfig :: OAuthProviderConfig where
  "googleConfig =
     \<lparr>tokenEndpoint = ''https://oauth2.googleapis.com/token'',
      clientIdKey = ''GOOGLE_OAUTH_CLIENT_ID'',
      clientSecretKey = ''GOOGLE_OAUTH_CLIENT_SECRET'',
      providerName = ''Google''\<rparr>"

definition exchangeCodeGoogle ::
  "'u runtime \<Rightarrow> TokenExchangeRequest \<Rightarrow> Env \<Rightarrow> FetchRequest list \<times> (exn + 'u TokenExchangeResponse)" where
  "exchangeCodeGoogle rt req env = exchangeCode rt req env googleConfig"

definition microsoftConfig :: OAuthProviderConfig where
  "microsoftConfig =
     \<lparr>tokenEndpoint = ''https://login.microsoftonline.com/common/oauth2/v2.0/token'',
      clientIdKey = ''MICROSOFT_OAUTH_CLIENT_ID'',
      clientSecretKey = ''MICROSOFT_OAUTH_CLIENT_SECRET'',
      providerName = ''Microsoft''\<rparr>"

definition exchangeCodeMicrosoft ::
  "'u runtime \<Rightarrow> TokenExchangeRequest \<Rightarrow> Env \<Rightarrow> FetchRequest list \<times> (exn + 'u TokenExchangeResponse)" where
  "exchangeCodeMicrosoft rt req env = exchangeCode rt req env microsoftConfig"

section \<open>lib/user-info.ts\<close>

definition userInfoRequest :: "Env \<Rightarrow> string \<Rightarrow> string option \<Rightarrow> FetchRequest" where
  "userInfoRequest env idToken referralCode =
     \<lparr>url = USER_INFO_SERVICE_URL env @ ''/user/info'',
      http_method = ''GET'',
      request_headers =
        [(''x-auth-token'', idToken)]
        @ (case truthy referralCode of
             None \<Rightarrow> []
           | Some r \<Rightarrow> [(''x-referral-code'', r)]),
      form = None\<rparr>"

definition fetchUserInfo ::
  "'u runtime \<Rightarrow> string \<Rightarrow> Env \<Rightarrow> string option \<Rightarrow> FetchRequest list \<times> (exn + 'u)" where
  "fetchUserInfo rt idToken env referralCode =
     (let call = userInfoRequest env idToken referralCode
      in case fetch rt call of
           Inl e \<Rightarrow> ([call], Inl e)
         | Inr response \<Rightarrow>
             if \<not> ok response then
               ([call], Inl (Error
                  (''User info request failed with status ''
                     @ template_number (fetched_status response)
                     @ '': '' @ fetched_text response)))
             else
               (case JSON_parse_unknown rt (fetched_text response) of
                  Inl e \<Rightarrow>
                    ([call], Inl (Error
                       (''Failed to parse user info response: '' @ fetched_text response)))
                | Inr userInfo \<Rightarrow> ([call], Inr userInfo)))"

section \<open>src/index.ts\<close>

text \<open>
  A \<open>Response\<close> is kept with the value handed to \<open>JSON.stringify\<close>, not its text: the
  health object, an error object \<open>{error: message}\<close>, a token response, or no body.
  Of the incoming \<open>Request\<close> the worker reads the method, the path of its URL, two
  headers and the body through \<open>request.json()\<close>, which is \<open>None\<close> when it throws
  and a parsed value otherwise.  A handler either returns a \<open>Response\<close> (\<open>Inr\<close>) or
  throws (\<open>Inl\<close>); the outbound calls made and the cache are there in both cases.
  The lines written with \<open>console.error\<close> are not part of the model.
\<close>

datatype 'u payload =
    Json_health string string
  | Json_error string
  | Json_token "'u TokenExchangeResponse"
  | Null_body

record 'u Response =
  status :: nat
  headers :: "(string \<times> string) list"
  payload :: "'u payload"

record Request =
  request_method :: string
  pathname :: string
  header_Origin :: "string option"
  header_x_referral_code :: "string option"
  json :: "TokenExchangeRequest parsed option"

definition stripRoutePrefix :: "string \<Rightarrow> string" where
  "stripRoutePrefix path =
     (if prefix ''/api-staging'' path then
        (let rest = drop (length ''/api-staging'') path in if rest = [] then ''/'' else rest)
      else if prefix ''/api'' path then
        (let rest = drop (length ''/api'') path in if rest = [] then ''/'' else rest)
      else path)"

definition jsonResponse ::
  "(string \<Rightarrow> URL option) \<Rightarrow> regexCache \<Rightarrow> 'u payload \<Rightarrow> nat \<Rightarrow> string option \<Rightarrow> string option
     \<Rightarrow> 'u Response \<times> regexCache" where
  "jsonResponse URL_new cache data status' origin allowedUris =
     (let plain = [(''Content-Type'', ''application/json'')]
      in case truthy origin of
           None \<Rightarrow> (\<lparr>status = status', headers = plain, payload = data\<rparr>, cache)
         | Some origin' \<Rightarrow>
        (case truthy allowedUris of
           None \<Rightarrow> (\<lparr>status = status', headers = plain, payload = data\<rparr>, cache)
         | Some allowedUris' \<Rightarrow>
        (case isAllowedOrigin URL_new cache origin' allowedUris' of
           (True, cache') \<Rightarrow>
             (\<lparr>status = status',
               headers = plain @
                 [(''Access-Control-Allow-Origin'', origin'),
                  (''Access-Control-Allow-Methods'', ''GET, POST, OPTIONS''),
                  (''Access-Control-Allow-Headers'', ''Content-Type, X-Referral-Code'')],
               payload = data\<rparr>, cache')
         | (False, cache') \<Rightarrow>
             (\<lparr>status = status', headers = plain, payload = data\<rparr>, cache'))))"

definition errorResponse ::
  "(string \<Rightarrow> URL option) \<Rightarrow> regexCache \<Rightarrow> string \<Rightarrow> nat \<Rightarrow> string option \<Rightarrow> string
     \<Rightarrow> 'u Response \<times> regexCache" where
  "errorResponse URL_new cache message status' origin allowedUris =
     jsonResponse URL_new cache (Json_error message) status' origin (Some allowedUris)"

definition handleCors ::
  "(string \<Rightarrow> URL option) \<Rightarrow> regexCache \<Rightarrow> string option \<Rightarrow> string \<Rightarrow> 'u Response \<times> regexCache" where
  "handleCors URL_new cache origin allowedUris =
     (case truthy origin of
        None \<Rightarrow> (\<lparr>status = 204, headers = [], payload = Null_body\<rparr>, cache)
      | Some origin' \<Rightarrow>
     (case isAllowedOrigin URL_new cache origin' allowedUris of
        (True, cache') \<Rightarrow>
          (\<lparr>status = 204,
            headers =
              [(''Access-Control-Allow-Origin'', origin'),
               (''Access-Control-Allow-Methods'', ''GET, POST, OPTIONS''),
               (''Access-Control-Allow-Headers'', ''Content-Type, X-Referral-Code''),
               (''Access-Control-Max-Age'', ''86400'')],
            payload = Null_body\<rparr>, cache')
      | (False, cache') \<Rightarrow> (\<lparr>status = 204, headers = [], payload = Null_body\<rparr>, cache')))"

text \<open>
  \<open>handleTokenExchange\<close> returns the response, the outbound calls made on the way, in
  order, and the cache.  The \<open>switch\<close> on the provider is the inner \<open>case\<close>: \<open>None\<close> is
  its \<open>default\<close> branch, which returns at once.  An exception of the exchange is caught
  by the outer \<open>catch\<close>, one of \<open>fetchUserInfo\<close> by the inner one.  The tests of the
  required fields stand before the outer \<open>try\<close>: when \<open>request.json()\<close> gives \<open>null\<close>,
  \<open>!req.code\<close> throws and nothing catches it.
\<close>

type_synonym 'u handled = "((exn + 'u Response) \<times> FetchRequest list) \<times> regexCache"

definition with_calls :: "FetchRequest list \<Rightarrow> 'u Response \<times> regexCache \<Rightarrow> 'u handled" where
  "with_calls calls r = ((Inr (fst r), calls), snd r)"

definition throws :: "FetchRequest list \<Rightarrow> exn \<Rightarrow> regexCache \<Rightarrow> 'u handled" where
  "throws calls e cache = ((Inl e, calls), cache)"

definition handleTokenExchange ::
  "'u runtime \<Rightarrow> regexCache \<Rightarrow> Request \<Rightarrow> Env \<Rightarrow> string option \<Rightarrow> 'u handled" where
  "handleTokenExchange rt cache request env origin =
     (let allowedUris = ALLOWED_REDIRECT_URIS env; URL_new = runtime_URL rt
      in case json request of
           None \<Rightarrow>
             with_calls [] (errorResponse URL_new cache ''Invalid request body'' 400 origin allowedUris)
         | Some Parsed_null \<Rightarrow> throws [] (reading_null ''code'') cache
         | Some (Parsed_object req) \<Rightarrow>
        (case truthy (code req) of
           None \<Rightarrow>
             with_calls [] (errorResponse URL_new cache ''code is required'' 400 origin allowedUris)
         | Some code' \<Rightarrow>
        (case truthy (redirect_uri req) of
           None \<Rightarrow>
             with_calls [] (errorResponse URL_new cache ''redirect_uri is required'' 400 origin allowedUris)
         | Some redirect_uri' \<Rightarrow>
        (case truthy (provider req) of
           None \<Rightarrow>
             with_calls [] (errorResponse URL_new cache ''provider is required'' 400 origin allowedUris)
         | Some provider' \<Rightarrow>
        (case validateRedirectUri cache redirect_uri' allowedUris of
           (False, cache1) \<Rightarrow>
             with_calls [] (errorResponse URL_new cache1 ''invalid redirect_uri'' 400 origin allowedUris)
         | (True, cache1) \<Rightarrow>
        (let provider = toLowerCase provider'
         in case (if provider = ''google'' then Some (exchangeCodeGoogle rt req env)
                  else if provider = ''outlook'' \<or> provider = ''microsoft''
                    then Some (exchangeCodeMicrosoft rt req env)
                  else None) of
              None \<Rightarrow>
                with_calls []
                  (errorResponse URL_new cache1 (''Unsupported OAuth provider: '' @ provider) 400
                     origin allowedUris)
            | Some (calls, Inl err) \<Rightarrow>
                with_calls calls
                  (errorResponse URL_new cache1 ''Token exchange failed'' 400 origin allowedUris)
            | Some (calls, Inr tokenResp) \<Rightarrow>
           (case truthy (id_token tokenResp) of
              None \<Rightarrow>
                with_calls calls
                  (errorResponse URL_new cache1 ''Token exchange failed'' 400 origin allowedUris)
            | Some id_token' \<Rightarrow>
           (let referralCode = truthy (header_x_referral_code request)
            in case fetchUserInfo rt id_token' env referralCode of
                 (calls', Inl err) \<Rightarrow>
                   with_calls (calls @ calls')
                     (errorResponse URL_new cache1 ''Failed to retrieve user information'' 500
                        origin allowedUris)
               | (calls', Inr userInfo) \<Rightarrow>
                   with_calls (calls @ calls')
                     (jsonResponse URL_new cache1
                        (Json_token (tokenResp\<lparr>user_info := Some userInfo\<rparr>)) 200
                        origin (Some allowedUris))))))))))"

text \<open>The \<open>fetch\<close> method of the default export: the worker's entry point.\<close>

definition default_fetch ::
  "'u runtime \<Rightarrow> regexCache \<Rightarrow> Request \<Rightarrow> Env \<Rightarrow> 'u handled" where
  "default_fetch rt cache request env =
     (let origin = header_Origin request;
          pathname' = stripRoutePrefix (pathname request)
      in if request_method request = ''OPTIONS'' then
           with_calls [] (handleCors (runtime_URL rt) cache origin (ALLOWED_REDIRECT_URIS env))
         else if pathname' = ''/health'' then
           with_calls []
             (jsonResponse (runtime_URL rt) cache (Json_health ''ok'' (ENVIRONMENT env)) 200
                origin (Some (ALLOWED_REDIRECT_URIS env)))
         else if pathname' = ''/oauth/token'' \<and> request_method request = ''POST'' then
           handleTokenExchange rt cache request env origin
         else
           with_calls []
             (errorResponse (runtime_URL rt) cache ''Not found'' 404 origin
                (ALLOWED_REDIRECT_URIS env)))"

section \<open>Definitions used to state the properties\<close>

text \<open>
  Wildcard matching written directly, without regular expressions: every character of
  the pattern but \<open>*\<close> stands for itself, \<open>*\<close> stands for any run (also empty) of
  characters that satisfy \<open>star\<close>, and the whole string must be consumed.
\<close>

fun wildcard :: "(char \<Rightarrow> bool) \<Rightarrow> string \<Rightarrow> string \<Rightarrow> bool" where
  "wildcard star [] s = (s = [])"
| "wildcard star (p # ps) [] = (p = CHR ''*'' \<and> wildcard star ps [])"
| "wildcard star (p # ps) (x # xs) =
     (if p = CHR ''*'' then wildcard star ps (x # xs) \<or> (star x \<and> wildcard star (p # ps) xs)
      else x = p \<and> wildcard star ps xs)"

text \<open>The matcher in the words of the specification: \<open>*\<close> matches zero or more of any
  character.\<close>

definition spec_match :: "string \<Rightarrow> string \<Rightarrow> bool" where
  "spec_match uri pattern = wildcard (\<lambda>c. True) pattern uri"

text \<open>What one character of a pattern contributes to the source text of the regular
  expression, and to the compiled expression.\<close>

definition regex_source_char :: "char \<Rightarrow> string" where
  "regex_source_char c =
     (if c = CHR ''*'' then ''.*'' else if syntax_character c then [backslash, c] else [c])"

definition rx_item :: "char \<Rightarrow> rx" where
  "rx_item c = (if c = CHR ''*'' then AnyStar else Lit c)"

text \<open>The states the cache can be in: every entry is what \<open>matchesPattern\<close> stores for
  its key.  The empty cache is such a state and every function keeps it so.\<close>

definition cache_ok :: "regexCache \<Rightarrow> bool" where
  "cache_ok cache = (\<forall>p r. cache p = Some r \<longrightarrow> RegExp_new (regexPattern p) = Some r)"

text \<open>The patterns of an allowlist, as both validators compute them.\<close>

definition patterns_of :: "string \<Rightarrow> string list" where
  "patterns_of allowedUris = map trim (split CHR '','' allowedUris)"



subsection \<open>Concrete inputs\<close>

definition example_env :: Env where
  "example_env =
     \<lparr>ENVIRONMENT = ''production'',
      USER_INFO_SERVICE_URL = ''https://backend.example.com/api'',
      ALLOWED_REDIRECT_URIS = ''https://app.example.com/*'',
      GOOGLE_OAUTH_CLIENT_ID = Some ''g-id'',
      GOOGLE_OAUTH_CLIENT_SECRET = Some ''g-secret'',
      MICROSOFT_OAUTH_CLIENT_ID = Some ''m-id'',
      MICROSOFT_OAUTH_CLIENT_SECRET = Some ''m-secret''\<rparr>"

definition example_tokens :: "string TokenExchangeResponse" where
  "example_tokens =
     \<lparr>access_token = Some ''access'',
      token_type = ''Bearer'',
      expires_in = 3600,
      scope = ''openid email'',
      refresh_token = None,
      id_token = Some ''identity'',
      user_info = None\<rparr>"

text \<open>A runtime whose provider answers \<open>provider_status\<close> and whose backend answers
  \<open>backend_status\<close>; the bodies parse when they are the expected ones.\<close>

definition example_runtime :: "nat \<Rightarrow> nat \<Rightarrow> string runtime" where
  "example_runtime provider_status backend_status =
     \<lparr>runtime_URL = (\<lambda>s. None),
      fetch = (\<lambda>call.
        if http_method call = ''POST''
        then Inr \<lparr>fetched_status = provider_status, fetched_text = ''token-body''\<rparr>
        else Inr \<lparr>fetched_status = backend_status, fetched_text = ''profile-body''\<rparr>),
      JSON_parse_error = (\<lambda>s. Inl (Error ''SyntaxError'')),
      JSON_parse_token = (\<lambda>s.
        if s = ''token-body'' then Inr (Parsed_object example_tokens)
        else Inl (Error ''SyntaxError'')),
      JSON_parse_unknown = (\<lambda>s.
        if s = ''profile-body'' then Inr ''alice'' else Inl (Error ''SyntaxError''))\<rparr>"



definition example_body :: "string \<Rightarrow> string \<Rightarrow> TokenExchangeRequest" where
  "example_body uri prov =
     \<lparr>code = Some ''auth-code'', redirect_uri = Some uri, code_verifier = None,
      provider = Some prov\<rparr>"

definition example_request :: "string \<Rightarrow> string \<Rightarrow> string \<Rightarrow> string \<Rightarrow> Request" where
  "example_request meth path uri prov =
     \<lparr>request_method = meth, pathname = path, header_Origin = None,
      header_x_referral_code = None, json = Some (Parsed_object (example_body uri prov))\<rparr>"

text \<open>A POST to \<open>/oauth/token\<close> whose body is the JSON text \<open>null\<close>.\<close>

definition null_request :: Request where
  "null_request =
     \<lparr>request_method = ''POST'', pathname = ''/oauth/token'', header_Origin = None,
      header_x_referral_code = None, json = Some Parsed_null\<rparr>"

text \<open>A URL parser known at one input only: what the URL Standard gives for
  \<open>https://WILDCARD.example.com/callback\<close>, whose host it lowercases.\<close>

definition example_URL :: "string \<Rightarrow> URL option" where
  "example_URL s =
     (if s = ''https://WILDCARD.example.com/callback''
      then Some \<lparr>protocol = ''https:'', host = ''wildcard.example.com''\<rparr>
      else None)"

section \<open>The compiled form of a pattern\<close>

lemma escape_specials_Cons:
  "escape_specials (c # cs) =
     (if syntax_character c then [backslash, c] else [c]) @ escape_specials cs"
  by (simp add: escape_specials_def)

lemma escape_specials_no_star: "\<not> prefix ''*'' (escape_specials p)"
  by (cases p) (auto simp: escape_specials_def syntax_character_def backslash_def)

text \<open>The second \<open>replace\<close> finds exactly the escaped stars: a backslash that escapes
  a backslash is never followed by a bare star.\<close>

lemma replaceAll_escape:
  "replaceAll [backslash, CHR ''*''] ''.*'' (escape_specials p) = concat (map regex_source_char p)"
proof (induction p)
  case Nil
  show ?case by (simp add: escape_specials_def)
next
  case (Cons c cs)
  have ns: "\<not> prefix [backslash, CHR ''*''] (backslash # escape_specials cs)"
    using escape_specials_no_star [of cs] by simp
  show ?case
  proof (cases "syntax_character c")
    case False
    then have "c \<noteq> backslash" "c \<noteq> CHR ''*''" by (auto simp: syntax_character_def)
    with False Cons show ?thesis
      by (simp add: escape_specials_Cons regex_source_char_def)
  next
    case True
    show ?thesis
    proof (cases "c = CHR ''*''")
      case True
      with Cons show ?thesis
        by (simp add: escape_specials_Cons regex_source_char_def syntax_character_def)
    next
      case False
      with True Cons ns show ?thesis
        by (cases "c = backslash") (simp_all add: escape_specials_Cons regex_source_char_def)
    qed
  qed
qed

lemma RegExp_new_literal:
  "\<not> syntax_character c \<Longrightarrow> t \<noteq> [] \<Longrightarrow>
     RegExp_new (c # t) = map_option (Cons (Lit c)) (RegExp_new t)"
  by (cases t) (auto simp: syntax_character_def backslash_def)

lemma RegExp_new_source:
  "RegExp_new (concat (map regex_source_char p) @ ''$'') = Some (map rx_item p @ [Eol])"
proof (induction p)
  case Nil
  show ?case by simp
next
  case (Cons c cs)
  show ?case
  proof (cases "syntax_character c")
    case False
    then have "c \<noteq> CHR ''*''" by (auto simp: syntax_character_def)
    with False Cons show ?thesis
      by (simp add: regex_source_char_def rx_item_def RegExp_new_literal)
  next
    case True
    with Cons show ?thesis
      by (cases "c = CHR ''*''") (simp_all add: regex_source_char_def rx_item_def backslash_def)
  qed
qed

text \<open>\<open>new RegExp\<close> never throws on the text \<open>matchesPattern\<close> builds, and the compiled
  expression is the pattern read item by item between \<open>^\<close> and \<open>$\<close>.\<close>

lemma RegExp_new_regexPattern:
  "RegExp_new (regexPattern p) = Some (Bol # map rx_item p @ [Eol])"
proof -
  have "RegExp_new (CHR ''^'' # (concat (map regex_source_char p) @ ''$'')) =
        map_option (Cons Bol) (RegExp_new (concat (map regex_source_char p) @ ''$''))"
    by (cases "concat (map regex_source_char p) @ ''$''") simp_all
  then show ?thesis
    by (simp add: regexPattern_def replaceAll_escape RegExp_new_source)
qed

lemma rx_search_Bol_False: "rx_search (Bol # r) False s = False"
  by (induction s) simp_all

lemma RegExp_test_Bol: "RegExp_test (Bol # r) s = rx_match r True s"
  by (cases s) (simp_all add: RegExp_test_def rx_search_Bol_False)

lemma rx_match_items:
  "rx_match (map rx_item p @ [Eol]) b s = wildcard (\<lambda>c. \<not> line_terminator c) p s"
  by (induction "\<lambda>c. \<not> line_terminator c" p s arbitrary: b rule: wildcard.induct)
     (auto simp: rx_item_def)

lemma RegExp_test_compiled:
  "RegExp_new (regexPattern p) = Some r \<Longrightarrow>
     RegExp_test r s = wildcard (\<lambda>c. \<not> line_terminator c) p s"
  by (auto simp: RegExp_new_regexPattern RegExp_test_Bol rx_match_items)

section \<open>The matcher and its cache\<close>

lemma cache_ok_empty: "cache_ok Map.empty"
  by (simp add: cache_ok_def)

text \<open>On a cache in one of its reachable states the matcher is wildcard matching in
  which a star does not run over a line terminator, and the state stays reachable.\<close>

lemma matchesPattern_wildcard:
  assumes "cache_ok cache"
  shows "fst (matchesPattern cache uri pattern) = wildcard (\<lambda>c. \<not> line_terminator c) pattern uri"
proof (cases "cache pattern")
  case None
  then show ?thesis
    by (simp add: matchesPattern_def RegExp_new_regexPattern RegExp_test_Bol rx_match_items)
next
  case (Some r)
  with assms have "RegExp_new (regexPattern pattern) = Some r"
    by (simp add: cache_ok_def)
  with Some show ?thesis
    by (simp add: matchesPattern_def RegExp_test_compiled)
qed

lemma matchesPattern_cache_ok:
  assumes "cache_ok cache"
  shows "cache_ok (snd (matchesPattern cache uri pattern))"
proof (cases "cache pattern")
  case None
  with assms show ?thesis
    by (auto simp: matchesPattern_def RegExp_new_regexPattern cache_ok_def)
next
  case (Some r)
  with assms show ?thesis
    by (simp add: matchesPattern_def)
qed

lemma matchesPattern_fresh:
  "fst (matchesPattern Map.empty uri pattern) = wildcard (\<lambda>c. \<not> line_terminator c) pattern uri"
  by (simp add: matchesPattern_wildcard cache_ok_empty)

lemma wildcard_no_star:
  "CHR ''*'' \<notin> set pattern \<Longrightarrow> wildcard star pattern uri = (uri = pattern)"
  by (induction star pattern uri rule: wildcard.induct) auto

lemma wildcard_mono:
  "wildcard star pattern uri \<Longrightarrow> (\<And>c. star c \<Longrightarrow> star' c) \<Longrightarrow> wildcard star' pattern uri"
  by (induction star pattern uri rule: wildcard.induct) (auto split: if_splits)

lemma wildcard_cong_on:
  "(\<And>c. c \<in> set uri \<Longrightarrow> star c = star' c) \<Longrightarrow>
     wildcard star pattern uri = wildcard star' pattern uri"
  by (induction star pattern uri rule: wildcard.induct) auto

text \<open>Where the input holds no line terminator, the matcher is the matcher of the
  specification.\<close>

lemma matchesPattern_spec_match:
  assumes "cache_ok cache" and "\<And>c. c \<in> set uri \<Longrightarrow> \<not> line_terminator c"
  shows "fst (matchesPattern cache uri pattern) = spec_match uri pattern"
  unfolding spec_match_def matchesPattern_wildcard [OF assms(1)]
  by (rule wildcard_cong_on) (simp add: assms(2))

text \<open>The examples of the specification.\<close>

lemma matchesPattern_examples:
  "fst (matchesPattern Map.empty ''https://app.example.com/'' ''https://*.example.com/*'')"
  "\<not> fst (matchesPattern Map.empty ''https://evil.com/'' ''https://*.example.com/*'')"
  unfolding matchesPattern_fresh by (simp_all add: line_terminator_def line_feed_def carriage_return_def)

lemma matchesPattern_literal:
  "cache_ok cache \<Longrightarrow> CHR ''*'' \<notin> set pattern \<Longrightarrow>
     fst (matchesPattern cache uri pattern) = (uri = pattern)"
  by (simp add: matchesPattern_wildcard wildcard_no_star)

lemma loop_wildcard:
  assumes "cache_ok cache"
  shows "fst (validateRedirectUri_loop cache uri ps) =
           (\<exists>p \<in> set ps. wildcard (\<lambda>c. \<not> line_terminator c) p uri)
         \<and> cache_ok (snd (validateRedirectUri_loop cache uri ps))"
  using assms
proof (induction ps arbitrary: cache)
  case Nil
  then show ?case by simp
next
  case (Cons p ps)
  obtain b cache' where m: "matchesPattern cache uri p = (b, cache')"
    by (cases "matchesPattern cache uri p")
  have b: "b = wildcard (\<lambda>c. \<not> line_terminator c) p uri"
    using matchesPattern_wildcard [OF Cons.prems, of uri p] m by simp
  have c: "cache_ok cache'"
    using matchesPattern_cache_ok [OF Cons.prems, of uri p] m by simp
  show ?case
  proof (cases b)
    case True
    with m b c show ?thesis by simp
  next
    case False
    with m b Cons.IH [OF c] show ?thesis by simp
  qed
qed

lemma validateRedirectUri_wildcard:
  assumes "cache_ok cache"
  shows "fst (validateRedirectUri cache uri allowedUris) =
           (uri \<noteq> [] \<and> (\<exists>p \<in> set (patterns_of allowedUris).
              wildcard (\<lambda>c. \<not> line_terminator c) p uri))"
    and "cache_ok (snd (validateRedirectUri cache uri allowedUris))"
  using loop_wildcard [OF assms] assms
  by (simp_all add: validateRedirectUri_def patterns_of_def)

lemma isAllowedOrigin_loop_cache_ok:
  "cache_ok cache \<Longrightarrow> cache_ok (snd (isAllowedOrigin_loop URL_new cache origin ps))"
proof (induction ps arbitrary: cache)
  case Nil
  then show ?case by simp
next
  case (Cons p ps)
  show ?case
  proof (cases "extractOrigin URL_new p")
    case None
    with Cons show ?thesis by simp
  next
    case (Some po)
    obtain b cache' where m: "matchesPattern cache origin po = (b, cache')"
      by (cases "matchesPattern cache origin po")
    have c: "cache_ok cache'"
      using matchesPattern_cache_ok [OF Cons.prems, of origin po] m by simp
    from Some m c Cons show ?thesis
      by (cases b) simp_all
  qed
qed

lemma isAllowedOrigin_cache_ok:
  "cache_ok cache \<Longrightarrow> cache_ok (snd (isAllowedOrigin URL_new cache origin allowedUris))"
  by (simp add: isAllowedOrigin_def isAllowedOrigin_loop_cache_ok)

section \<open>Claims about the validators\<close>

text \<open>
  C10.  Both validators reject the empty string before they look at any pattern:
  whatever the allowlist, the cache and the URL parser, \<open>validateRedirectUri\<close> returns
  false on the empty redirect URI and \<open>isAllowedOrigin\<close> returns false on the empty
  origin, and neither touches the cache.
\<close>

theorem empty_string_rejected:
  "validateRedirectUri cache [] allowedUris = (False, cache)
   \<and> isAllowedOrigin URL_new cache [] allowedUris = (False, cache)"
  by (simp add: validateRedirectUri_def isAllowedOrigin_def)

text \<open>
  C9.  The cache does not change an answer.  Whatever the cache holds, a second call of
  \<open>matchesPattern\<close> with the same arguments, on the cache the first call left, returns
  the boolean the first call returned; after the first call the pattern is in the cache,
  so the second call is a hit; and a hit on an entry stored by a first call on the
  empty cache answers, for any other input, what a call that compiles the pattern
  afresh answers.
\<close>

theorem matchesPattern_twice:
  "fst (matchesPattern (snd (matchesPattern cache uri pattern)) uri pattern)
     = fst (matchesPattern cache uri pattern)
   \<and> snd (matchesPattern cache uri pattern) pattern \<noteq> None
   \<and> fst (matchesPattern (snd (matchesPattern Map.empty uri pattern)) uri' pattern)
     = fst (matchesPattern Map.empty uri' pattern)"
proof (intro conjI)
  show "fst (matchesPattern (snd (matchesPattern cache uri pattern)) uri pattern)
          = fst (matchesPattern cache uri pattern)"
    by (cases "cache pattern") (simp_all add: matchesPattern_def RegExp_new_regexPattern)
  show "snd (matchesPattern cache uri pattern) pattern \<noteq> None"
    by (cases "cache pattern") (auto simp: matchesPattern_def RegExp_new_regexPattern)
  show "fst (matchesPattern (snd (matchesPattern Map.empty uri pattern)) uri' pattern)
          = fst (matchesPattern Map.empty uri' pattern)"
    by (simp add: matchesPattern_def RegExp_new_regexPattern)
qed

text \<open>
  C3.  The claim is that \<open>matchesPattern\<close> is full-string wildcard matching in which
  \<open>*\<close> matches zero or more of any character.  The code compiles \<open>*\<close> to \<open>.*\<close> without
  the \<open>s\<close> flag, and \<open>.\<close> does not match a line terminator: for the allowlist pattern
  \<open>https://app.example.com/*\<close> and the URI \<open>https://app.example.com/a\<close>, a line feed,
  \<open>b\<close>, the code answers false where the matcher of the specification answers true.
  (The three examples of the claim hold, and so does the claim on every input without
  a line terminator: lemmas \<open>matchesPattern_examples\<close>, \<open>matchesPattern_literal\<close> and
  \<open>matchesPattern_spec_match\<close>.)
\<close>

theorem matchesPattern_line_feed:
  "fst (matchesPattern Map.empty (''https://app.example.com/a'' @ [CHR 0x0A] @ ''b'')
          ''https://app.example.com/*'') = False
   \<and> spec_match (''https://app.example.com/a'' @ [CHR 0x0A] @ ''b'') ''https://app.example.com/*''"
proof
  show "fst (matchesPattern Map.empty (''https://app.example.com/a'' @ [CHR 0x0A] @ ''b'')
          ''https://app.example.com/*'') = False"
    unfolding matchesPattern_fresh by (simp add: line_terminator_def line_feed_def)
  show "spec_match (''https://app.example.com/a'' @ [CHR 0x0A] @ ''b'') ''https://app.example.com/*''"
    by (simp add: spec_match_def)
qed

text \<open>
  C2.  The claim is that \<open>isAllowedOrigin\<close> reduces the pattern
  \<open>https://*.example.com/callback\<close> to the origin \<open>https://*.example.com\<close> and so accepts
  the origin \<open>https://app.example.com\<close>.  \<open>extractOrigin\<close> hands
  \<open>https://WILDCARD.example.com/callback\<close> to the URL parser; a parser that follows the
  URL Standard lowercases the host of an \<open>https\<close> URL, so the text that comes back holds
  \<open>wildcard\<close>, the case-sensitive \<open>replace(/WILDCARD/g, '*')\<close> restores nothing, and the
  pattern reduces to \<open>https://wildcard.example.com\<close>, which \<open>https://app.example.com\<close>
  does not match.  The two rejections of the claim hold.
\<close>

theorem wildcard_host_not_restored:
  assumes "URL_new ''https://WILDCARD.example.com/callback''
             = Some \<lparr>protocol = ''https:'', host = ''wildcard.example.com''\<rparr>"
  shows "extractOrigin URL_new ''https://*.example.com/callback''
           = Some ''https://wildcard.example.com''
         \<and> fst (isAllowedOrigin URL_new Map.empty ''https://app.example.com''
                  ''https://*.example.com/callback'') = False
         \<and> fst (isAllowedOrigin URL_new Map.empty ''http://app.example.com''
                  ''https://*.example.com/callback'') = False
         \<and> fst (isAllowedOrigin URL_new Map.empty ''https://app.example.com:8080''
                  ''https://*.example.com/callback'') = False"
proof -
  have t: "replaceAll ''*'' ''WILDCARD'' ''https://*.example.com/callback''
             = ''https://WILDCARD.example.com/callback''"
    by code_simp
  have r: "replaceAll ''WILDCARD'' ''*'' ''https://wildcard.example.com''
             = ''https://wildcard.example.com''"
    by code_simp
  have e: "extractOrigin URL_new ''https://*.example.com/callback''
             = Some ''https://wildcard.example.com''"
    using r by (simp add: extractOrigin_def t assms)
  have p: "map trim (split CHR '','' ''https://*.example.com/callback'')
             = [''https://*.example.com/callback'']"
    by code_simp
  have tr: "trim ''https://*.example.com/callback'' = ''https://*.example.com/callback''"
    by code_simp
  have m: "fst (matchesPattern Map.empty origin ''https://wildcard.example.com'')
             = (origin = ''https://wildcard.example.com'')" for origin
    unfolding matchesPattern_fresh by (rule wildcard_no_star) simp
  have a: "fst (isAllowedOrigin URL_new Map.empty origin ''https://*.example.com/callback'')
             = (origin = ''https://wildcard.example.com'')" for origin
    using m [of origin]
    by (cases "matchesPattern Map.empty origin ''https://wildcard.example.com''")
       (auto simp: isAllowedOrigin_def p tr e split: bool.splits)
  show ?thesis
    by (simp add: e a)
qed

theorem wildcard_host_not_restored_witness:
  "example_URL ''https://WILDCARD.example.com/callback''
     = Some \<lparr>protocol = ''https:'', host = ''wildcard.example.com''\<rparr>
   \<and> extractOrigin example_URL ''https://*.example.com/callback''
     = Some ''https://wildcard.example.com''
   \<and> fst (isAllowedOrigin example_URL Map.empty ''https://app.example.com''
            ''https://*.example.com/callback'') = False"
proof -
  have h: "example_URL ''https://WILDCARD.example.com/callback''
             = Some \<lparr>protocol = ''https:'', host = ''wildcard.example.com''\<rparr>"
    by (simp add: example_URL_def)
  show ?thesis
    using h wildcard_host_not_restored [of example_URL, OF h] by simp
qed

section \<open>The responses\<close>

lemma jsonResponse_status [simp]:
  "status (fst (jsonResponse URL_new cache data status' origin allowedUris)) = status'"
  by (simp add: jsonResponse_def Let_def split: option.splits prod.splits bool.splits)

lemma jsonResponse_payload [simp]:
  "payload (fst (jsonResponse URL_new cache data status' origin allowedUris)) = data"
  by (simp add: jsonResponse_def Let_def split: option.splits prod.splits bool.splits)

lemma jsonResponse_cache:
  "snd (jsonResponse URL_new cache data status' origin allowedUris) =
     (case truthy origin of
        None \<Rightarrow> cache
      | Some origin' \<Rightarrow>
          (case truthy allowedUris of
             None \<Rightarrow> cache
           | Some allowedUris' \<Rightarrow> snd (isAllowedOrigin URL_new cache origin' allowedUris')))"
  by (simp add: jsonResponse_def Let_def split: option.splits prod.splits bool.splits)

lemma jsonResponse_cache_ok:
  "cache_ok cache \<Longrightarrow>
     cache_ok (snd (jsonResponse URL_new cache data status' origin allowedUris))"
  by (simp add: jsonResponse_cache isAllowedOrigin_cache_ok split: option.splits)

lemma errorResponse_status [simp]:
  "status (fst (errorResponse URL_new cache message status' origin allowedUris)) = status'"
  by (simp add: errorResponse_def)

lemma errorResponse_payload [simp]:
  "payload (fst (errorResponse URL_new cache message status' origin allowedUris))
     = Json_error message"
  by (simp add: errorResponse_def)

lemma errorResponse_cache_ok:
  "cache_ok cache \<Longrightarrow>
     cache_ok (snd (errorResponse URL_new cache message status' origin allowedUris))"
  by (simp add: errorResponse_def jsonResponse_cache_ok)

lemma handleCors_status [simp]:
  "status (fst (handleCors URL_new cache origin allowedUris)) = 204"
  by (simp add: handleCors_def split: option.splits prod.splits bool.splits)

lemma handleCors_cache:
  "snd (handleCors URL_new cache origin allowedUris) =
     (case truthy origin of
        None \<Rightarrow> cache
      | Some origin' \<Rightarrow> snd (isAllowedOrigin URL_new cache origin' allowedUris))"
  by (simp add: handleCors_def split: option.splits prod.splits bool.splits)

lemma handleCors_cache_ok:
  "cache_ok cache \<Longrightarrow> cache_ok (snd (handleCors URL_new cache origin allowedUris))"
  by (simp add: handleCors_cache isAllowedOrigin_cache_ok split: option.splits)

lemma with_calls_simps [simp]:
  "fst (fst (with_calls calls r)) = Inr (fst r)"
  "snd (fst (with_calls calls r)) = calls"
  "snd (with_calls calls r) = snd r"
  by (simp_all add: with_calls_def)

lemma throws_simps [simp]:
  "fst (fst (throws calls e cache)) = Inl e"
  "snd (fst (throws calls e cache)) = calls"
  "snd (throws calls e cache) = cache"
  by (simp_all add: throws_def)

section \<open>The exchange routine\<close>

lemma exchangeCode_Inr:
  assumes "snd (exchangeCode rt req env config) = Inr t"
  shows "truthy (access_token t) \<noteq> None \<and> truthy (id_token t) \<noteq> None"
  using assms
  by (auto simp: exchangeCode_def Let_def
           split: option.splits sum.splits parsed.splits if_splits)


lemma exchangeCode_no_credentials:
  "truthy (env_get env (clientIdKey config)) = None
     \<or> truthy (env_get env (clientSecretKey config)) = None \<Longrightarrow>
   fst (exchangeCode rt req env config) = []"
  by (auto simp: exchangeCode_def split: option.splits)



lemma fetchUserInfo_calls:
  "fst (fetchUserInfo rt idToken env referralCode) = [userInfoRequest env idToken referralCode]"
  by (simp add: fetchUserInfo_def Let_def split: sum.splits)

text \<open>When the enrichment fails: the call is rejected, the status is outside 2xx, or
  the body does not parse.\<close>

lemma fetchUserInfo_fails_iff:
  "isl (snd (fetchUserInfo rt idToken env referralCode)) =
     (case fetch rt (userInfoRequest env idToken referralCode) of
        Inl e \<Rightarrow> True
      | Inr response \<Rightarrow> \<not> ok response \<or> isl (JSON_parse_unknown rt (fetched_text response)))"
  by (simp add: fetchUserInfo_def Let_def split: sum.splits)

section \<open>The routes\<close>

text \<open>Outside OPTIONS, the path \<open>/health\<close> and POST \<open>/oauth/token\<close>, the answer is 404
  and no outbound call is made.\<close>

lemma default_fetch_not_found:
  assumes "request_method request \<noteq> ''OPTIONS''"
    and "stripRoutePrefix (pathname request) \<noteq> ''/health''"
    and "\<not> (stripRoutePrefix (pathname request) = ''/oauth/token''
            \<and> request_method request = ''POST'')"
  shows "(\<exists>response. fst (fst (default_fetch rt cache request env)) = Inr response
            \<and> status response = 404 \<and> payload response = Json_error ''Not found'')
         \<and> snd (fst (default_fetch rt cache request env)) = []"
  using assms by (auto simp: default_fetch_def)

lemma default_fetch_options:
  "request_method request = ''OPTIONS'' \<Longrightarrow>
     (\<exists>response. fst (fst (default_fetch rt cache request env)) = Inr response
        \<and> status response = 204)
     \<and> snd (fst (default_fetch rt cache request env)) = []"
  by (simp add: default_fetch_def)

lemma default_fetch_health:
  "request_method request \<noteq> ''OPTIONS'' \<Longrightarrow>
   stripRoutePrefix (pathname request) = ''/health'' \<Longrightarrow>
     (\<exists>response. fst (fst (default_fetch rt cache request env)) = Inr response
        \<and> status response = 200
        \<and> payload response = Json_health ''ok'' (ENVIRONMENT env))"
  by (simp add: default_fetch_def)

lemma default_fetch_token:
  "request_method request = ''POST'' \<Longrightarrow>
   stripRoutePrefix (pathname request) = ''/oauth/token'' \<Longrightarrow>
     default_fetch rt cache request env
       = handleTokenExchange rt cache request env (header_Origin request)"
  by (simp add: default_fetch_def)

section \<open>The cache stays in a reachable state\<close>

lemma handleTokenExchange_cache_ok:
  assumes "cache_ok cache"
  shows "cache_ok (snd (handleTokenExchange rt cache request env origin))"
proof -
  have v: "cache_ok cache1"
    if "validateRedirectUri cache uri (ALLOWED_REDIRECT_URIS env) = (b, cache1)" for uri b cache1
    using validateRedirectUri_wildcard(2) [OF assms, of uri "ALLOWED_REDIRECT_URIS env"] that
    by simp
  show ?thesis
    unfolding handleTokenExchange_def Let_def
    by (auto simp: assms errorResponse_cache_ok jsonResponse_cache_ok dest: v
             split: option.splits parsed.splits prod.splits sum.splits bool.splits)
qed

lemma default_fetch_cache_ok:
  "cache_ok cache \<Longrightarrow> cache_ok (snd (default_fetch rt cache request env))"
  by (simp add: default_fetch_def Let_def handleCors_cache_ok jsonResponse_cache_ok
        errorResponse_cache_ok handleTokenExchange_cache_ok)

section \<open>The outcomes of the orchestrator\<close>

text \<open>
  \<open>handleTokenExchange\<close> ends in one of three ways.  It returns 200, and then the body
  is a token response with a non-empty \<open>access_token\<close> and a non-empty \<open>id_token\<close>
  whose \<open>user_info\<close> is the value a successful call of \<open>fetchUserInfo\<close> with that
  \<open>id_token\<close> returned.  It returns 400 or 500 with an error object.  Or the body of
  the request is \<open>null\<close> and it throws, having made no outbound call.  So tokens
  without a profile are never returned.
\<close>

lemma handleTokenExchange_outcomes:
  "(\<exists>response t idt u.
      fst (fst (handleTokenExchange rt cache request env origin)) = Inr response
      \<and> status response = 200
      \<and> payload response = Json_token t
      \<and> truthy (access_token t) \<noteq> None
      \<and> truthy (id_token t) = Some idt
      \<and> user_info t = Some u
      \<and> snd (fetchUserInfo rt idt env (truthy (header_x_referral_code request))) = Inr u)
   \<or> (\<exists>response msg.
         fst (fst (handleTokenExchange rt cache request env origin)) = Inr response
         \<and> (status response = 400 \<or> status response = 500)
         \<and> payload response = Json_error msg)
   \<or> (json request = Some Parsed_null
       \<and> fst (fst (handleTokenExchange rt cache request env origin)) = Inl (reading_null ''code'')
       \<and> snd (fst (handleTokenExchange rt cache request env origin)) = [])"
proof -
  have ex: "truthy (access_token t) \<noteq> None"
    if "exchangeCode rt req env config = (calls, Inr t)" for req config calls t
    using exchangeCode_Inr [of rt req env config t] that by simp
  show ?thesis
    unfolding handleTokenExchange_def Let_def
    by (auto simp: exchangeCodeGoogle_def exchangeCodeMicrosoft_def dest: ex
             split: option.splits parsed.splits prod.splits sum.splits bool.splits if_splits)
qed

section \<open>Claims about the orchestrator\<close>

text \<open>
  C1.  The claim is that every request either is answered 200 with a token response
  that holds \<open>access_token\<close>, \<open>id_token\<close> and the \<open>user_info\<close> of a successful
  enrichment, or fails with an error response.  The code parses the body inside a
  \<open>try\<close> and answers 400 when it is not JSON, but it tests \<open>!req.code\<close> outside every
  \<open>try\<close>: on a POST to \<open>/oauth/token\<close> whose body is the JSON text \<open>null\<close>, reading
  \<open>code\<close> throws a \<open>TypeError\<close>, and the handler, and with it the worker's \<open>fetch\<close>,
  returns no response.  (On every other request the claim holds, and tokens without a
  profile are never returned: lemma \<open>handleTokenExchange_outcomes\<close>.)
\<close>

theorem null_body_throws:
  "handleTokenExchange rt cache null_request env origin
     = ((Inl (reading_null ''code''), []), cache)
   \<and> default_fetch rt cache null_request env = ((Inl (reading_null ''code''), []), cache)"
proof -
  have h: "stripRoutePrefix ''/oauth/token'' = ''/oauth/token''"
    by code_simp
  have t: "handleTokenExchange rt cache null_request env origin
             = ((Inl (reading_null ''code''), []), cache)" for origin
    by (simp add: handleTokenExchange_def null_request_def throws_def)
  have "default_fetch rt cache null_request env
          = handleTokenExchange rt cache null_request env (header_Origin null_request)"
    by (simp add: default_fetch_def null_request_def h)
  with t show ?thesis
    by simp
qed

text \<open>
  C4.  A well-formed exchange request (the body parses and \<open>code\<close>, \<open>redirect_uri\<close>
  and \<open>provider\<close> are present and not empty) whose \<open>redirect_uri\<close> matches no pattern
  of the allowlist is answered 400 with the body \<open>{error: "invalid redirect_uri"}\<close>,
  and no outbound call is made.  The cache is in any of its reachable states; a pattern
  matches when \<open>matchesPattern\<close> on an empty cache says so.
\<close>

theorem invalid_redirect_uri_rejected:
  assumes "json request = Some (Parsed_object req)"
    and "truthy (code req) = Some c"
    and "truthy (redirect_uri req) = Some uri"
    and "truthy (provider req) = Some p"
    and "cache_ok cache"
    and "\<forall>pattern \<in> set (patterns_of (ALLOWED_REDIRECT_URIS env)).
           \<not> fst (matchesPattern Map.empty uri pattern)"
  shows "(\<exists>response.
            fst (fst (handleTokenExchange rt cache request env origin)) = Inr response
            \<and> status response = 400
            \<and> payload response = Json_error ''invalid redirect_uri'')
         \<and> snd (fst (handleTokenExchange rt cache request env origin)) = []"
proof -
  have "\<not> fst (validateRedirectUri cache uri (ALLOWED_REDIRECT_URIS env))"
    using assms(6) by (simp add: validateRedirectUri_wildcard(1) [OF assms(5)] matchesPattern_fresh)
  then obtain cache1 where
    v: "validateRedirectUri cache uri (ALLOWED_REDIRECT_URIS env) = (False, cache1)"
    by (cases "validateRedirectUri cache uri (ALLOWED_REDIRECT_URIS env)") auto
  show ?thesis
    by (simp add: handleTokenExchange_def assms(1-4) v)
qed

theorem invalid_redirect_uri_rejected_witness:
  "(\<exists>response.
      fst (fst (handleTokenExchange (example_runtime 200 200) Map.empty
        (example_request ''POST'' ''/oauth/token'' ''https://attacker.example/'' ''google'')
        example_env None)) = Inr response
      \<and> status response = 400
      \<and> payload response = Json_error ''invalid redirect_uri'')
   \<and> snd (fst (handleTokenExchange (example_runtime 200 200) Map.empty
       (example_request ''POST'' ''/oauth/token'' ''https://attacker.example/'' ''google'')
       example_env None)) = []"
proof -
  have h1: "json (example_request ''POST'' ''/oauth/token'' ''https://attacker.example/'' ''google'')
              = Some (Parsed_object (example_body ''https://attacker.example/'' ''google''))"
    by (simp add: example_request_def)
  have h2: "truthy (code (example_body ''https://attacker.example/'' ''google'')) = Some ''auth-code''"
    by (simp add: example_body_def truthy_def)
  have h3: "truthy (redirect_uri (example_body ''https://attacker.example/'' ''google''))
              = Some ''https://attacker.example/''"
    by (simp add: example_body_def truthy_def)
  have h4: "truthy (provider (example_body ''https://attacker.example/'' ''google'')) = Some ''google''"
    by (simp add: example_body_def truthy_def)
  have h6: "\<forall>pattern \<in> set (patterns_of (ALLOWED_REDIRECT_URIS example_env)).
              \<not> fst (matchesPattern Map.empty ''https://attacker.example/'' pattern)"
    by code_simp
  show ?thesis
    by (rule invalid_redirect_uri_rejected [OF h1 h2 h3 h4 cache_ok_empty h6])
qed

text \<open>
  C5.  When the exchange with the provider succeeds and the enrichment call fails,
  because the backend answers outside 2xx, because its body does not parse, or because
  the call itself is rejected, the response is 500 with the message
  \<open>Failed to retrieve user information\<close>; its body is that error object, so it holds no
  token.  The request is well-formed and passes the allowlist; \<open>t\<close> is the token
  response of the exchange and \<open>idt\<close> its \<open>id_token\<close>.
\<close>

theorem enrichment_failure_is_500:
  assumes "json request = Some (Parsed_object req)"
    and "truthy (code req) = Some c"
    and "truthy (redirect_uri req) = Some uri"
    and "truthy (provider req) = Some p"
    and "fst (validateRedirectUri cache uri (ALLOWED_REDIRECT_URIS env))"
    and "(toLowerCase p = ''google'' \<and> exchangeCodeGoogle rt req env = (calls, Inr t))
         \<or> ((toLowerCase p = ''outlook'' \<or> toLowerCase p = ''microsoft'')
             \<and> exchangeCodeMicrosoft rt req env = (calls, Inr t))"
    and "truthy (id_token t) = Some idt"
    and "case fetch rt (userInfoRequest env idt (truthy (header_x_referral_code request))) of
           Inl e \<Rightarrow> True
         | Inr response \<Rightarrow>
             \<not> ok response \<or> isl (JSON_parse_unknown rt (fetched_text response))"
  shows "(\<exists>response.
            fst (fst (handleTokenExchange rt cache request env origin)) = Inr response
            \<and> status response = 500
            \<and> payload response = Json_error ''Failed to retrieve user information'')
         \<and> snd (fst (handleTokenExchange rt cache request env origin))
             = calls @ [userInfoRequest env idt (truthy (header_x_referral_code request))]"
proof -
  obtain cache1 where
    v: "validateRedirectUri cache uri (ALLOWED_REDIRECT_URIS env) = (True, cache1)"
    using assms(5) by (cases "validateRedirectUri cache uri (ALLOWED_REDIRECT_URIS env)") auto
  have "isl (snd (fetchUserInfo rt idt env (truthy (header_x_referral_code request))))"
    using assms(8) by (simp add: fetchUserInfo_fails_iff)
  then obtain err where
    f: "fetchUserInfo rt idt env (truthy (header_x_referral_code request))
          = ([userInfoRequest env idt (truthy (header_x_referral_code request))], Inl err)"
    using fetchUserInfo_calls [of rt idt env "truthy (header_x_referral_code request)"]
    by (cases "fetchUserInfo rt idt env (truthy (header_x_referral_code request))")
       (auto simp: isl_def)
  from assms(6) show ?thesis
  proof
    assume "toLowerCase p = ''google'' \<and> exchangeCodeGoogle rt req env = (calls, Inr t)"
    then show ?thesis
      by (simp add: handleTokenExchange_def assms(1-4,7) v f)
  next
    assume "(toLowerCase p = ''outlook'' \<or> toLowerCase p = ''microsoft'')
            \<and> exchangeCodeMicrosoft rt req env = (calls, Inr t)"
    then show ?thesis
      by (auto simp: handleTokenExchange_def assms(1-4,7) v f)
  qed
qed

theorem enrichment_failure_is_500_witness:
  "(\<exists>response.
      fst (fst (handleTokenExchange (example_runtime 200 503) Map.empty
        (example_request ''POST'' ''/oauth/token'' ''https://app.example.com/cb'' ''google'')
        example_env None)) = Inr response
      \<and> status response = 500
      \<and> payload response = Json_error ''Failed to retrieve user information'')
   \<and> snd (fst (handleTokenExchange (example_runtime 200 503) Map.empty
       (example_request ''POST'' ''/oauth/token'' ''https://app.example.com/cb'' ''google'')
       example_env None))
     = [tokenRequest (example_body ''https://app.example.com/cb'' ''google'') ''g-id'' ''g-secret''
          googleConfig]
       @ [userInfoRequest example_env ''identity''
            (truthy (header_x_referral_code
               (example_request ''POST'' ''/oauth/token'' ''https://app.example.com/cb'' ''google'')))]"
proof -
  have h1: "json (example_request ''POST'' ''/oauth/token'' ''https://app.example.com/cb'' ''google'')
              = Some (Parsed_object (example_body ''https://app.example.com/cb'' ''google''))"
    by (simp add: example_request_def)
  have h2: "truthy (code (example_body ''https://app.example.com/cb'' ''google'')) = Some ''auth-code''"
    by (simp add: example_body_def truthy_def)
  have h3: "truthy (redirect_uri (example_body ''https://app.example.com/cb'' ''google''))
              = Some ''https://app.example.com/cb''"
    by (simp add: example_body_def truthy_def)
  have h4: "truthy (provider (example_body ''https://app.example.com/cb'' ''google'')) = Some ''google''"
    by (simp add: example_body_def truthy_def)
  have h5: "fst (validateRedirectUri Map.empty ''https://app.example.com/cb''
                   (ALLOWED_REDIRECT_URIS example_env))"
    by code_simp
  have l: "toLowerCase ''google'' = ''google''"
    by code_simp
  have x: "exchangeCodeGoogle (example_runtime 200 503)
             (example_body ''https://app.example.com/cb'' ''google'') example_env
           = ([tokenRequest (example_body ''https://app.example.com/cb'' ''google'') ''g-id''
                 ''g-secret'' googleConfig], Inr example_tokens)"
    by (simp add: exchangeCodeGoogle_def exchangeCode_def googleConfig_def env_get_def
          example_env_def truthy_def example_runtime_def tokenRequest_def ok_def
          example_tokens_def)
  have h6: "(toLowerCase ''google'' = ''google''
              \<and> exchangeCodeGoogle (example_runtime 200 503)
                    (example_body ''https://app.example.com/cb'' ''google'') example_env
                  = ([tokenRequest (example_body ''https://app.example.com/cb'' ''google'') ''g-id''
                        ''g-secret'' googleConfig], Inr example_tokens))
            \<or> ((toLowerCase ''google'' = ''outlook'' \<or> toLowerCase ''google'' = ''microsoft'')
                \<and> exchangeCodeMicrosoft (example_runtime 200 503)
                      (example_body ''https://app.example.com/cb'' ''google'') example_env
                    = ([tokenRequest (example_body ''https://app.example.com/cb'' ''google'') ''g-id''
                          ''g-secret'' googleConfig], Inr example_tokens))"
    using l x by simp
  have h7: "truthy (id_token example_tokens) = Some ''identity''"
    by (simp add: example_tokens_def truthy_def)
  have h8: "case fetch (example_runtime 200 503)
                   (userInfoRequest example_env ''identity''
                      (truthy (header_x_referral_code
                         (example_request ''POST'' ''/oauth/token'' ''https://app.example.com/cb''
                            ''google'')))) of
              Inl e \<Rightarrow> True
            | Inr response \<Rightarrow>
                \<not> ok response
                \<or> isl (JSON_parse_unknown (example_runtime 200 503) (fetched_text response))"
    by (simp add: example_runtime_def userInfoRequest_def ok_def)
  show ?thesis
    by (rule enrichment_failure_is_500 [OF h1 h2 h3 h4 h5 h6 h7 h8])
qed






text \<open>
  C8.  The claim is that every request that is not OPTIONS, not GET \<open>/health\<close> and not
  POST \<open>/oauth/token\<close> is answered 404, so that \<open>/health\<close> answers 200 to GET only.
  The code tests the path \<open>/health\<close> without testing the method, where the next route
  tests both: a POST to \<open>/health\<close> is answered 200 with the health object.  (Every
  other request outside the three routes is answered 404: lemma
  \<open>default_fetch_not_found\<close>.)
\<close>

theorem health_answers_post:
  "\<exists>response.
     fst (fst (default_fetch rt cache (example_request ''POST'' ''/health'' uri prov) env))
       = Inr response
     \<and> status response = 200
     \<and> payload response = Json_health ''ok'' (ENVIRONMENT env)"
proof -
  have h: "stripRoutePrefix ''/health'' = ''/health''"
    by code_simp
  show ?thesis
    by (simp add: default_fetch_def example_request_def h)
qed

end
